theory Spec2Isabelle
  imports Complex_Main
begin

section \<open>Python values and exceptions\<close>

text \<open>
  Attribute values and the values of a rule condition are JSON scalars as
  \<^verbatim>\<open>json.load\<close> delivers them: \<^verbatim>\<open>None\<close>, booleans, integers, floats and strings.
  Floats are modelled as reals (no NaN).
\<close>

datatype pyval = PNone | PBool bool | PInt int | PFloat real | PStr string

text \<open>Python's \<^verbatim>\<open>==\<close> on these values: \<^verbatim>\<open>bool\<close> is a subtype of \<^verbatim>\<open>int\<close>, numbers compare by value.\<close>

fun py_num :: "pyval \<Rightarrow> real option" where
  "py_num (PBool b) = Some (if b then 1 else 0)"
| "py_num (PInt i) = Some (of_int i)"
| "py_num (PFloat r) = Some r"
| "py_num PNone = None"
| "py_num (PStr s) = None"

fun py_eq :: "pyval \<Rightarrow> pyval \<Rightarrow> bool" where
  "py_eq PNone PNone = True"
| "py_eq (PStr s) (PStr t) = (s = t)"
| "py_eq a b = (case py_num a of None \<Rightarrow> False
                | Some x \<Rightarrow> (case py_num b of None \<Rightarrow> False | Some y \<Rightarrow> x = y))"

text \<open>\<^verbatim>\<open>x in xs\<close> for a list \<^verbatim>\<open>xs\<close>.\<close>

fun py_in :: "pyval \<Rightarrow> pyval list \<Rightarrow> bool" where
  "py_in x [] = False"
| "py_in x (y # ys) = (py_eq x y \<or> py_in x ys)"

text \<open>A feature's attributes: a dictionary from string keys to scalars.\<close>

type_synonym attrs = "(string \<times> pyval) list"

text \<open>
  \<^verbatim>\<open>d.get(key)\<close>: \<^verbatim>\<open>None\<close> when the key is missing. The key itself is \<^verbatim>\<open>None\<close> when a
  condition has no \<^verbatim>\<open>"attribute"\<close> entry; no feature has that key.
\<close>

definition attrs_get :: "attrs \<Rightarrow> string option \<Rightarrow> pyval" where
  "attrs_get d key =
     (case key of None \<Rightarrow> PNone
      | Some k \<Rightarrow> (case map_of d k of None \<Rightarrow> PNone | Some v \<Rightarrow> v))"

text \<open>The exceptions that the checks can meet.\<close>

datatype exn = NameError string | IndexError | GeometryError string

definition ebind :: "exn + 'a \<Rightarrow> ('a \<Rightarrow> exn + 'b) \<Rightarrow> exn + 'b" where
  "ebind m f = (case m of Inl e \<Rightarrow> Inl e | Inr v \<Rightarrow> f v)"

text \<open>\<^verbatim>\<open>try: body except Exception: handler\<close>.\<close>

definition try_except :: "exn + 'a \<Rightarrow> (exn \<Rightarrow> exn + 'a) \<Rightarrow> exn + 'a" where
  "try_except body handler = (case body of Inl e \<Rightarrow> handler e | Inr v \<Rightarrow> Inr v)"

section \<open>The geometry library\<close>

text \<open>
  The geometry kernel (shapely), the spatial index (geopandas) and their failures are
  not part of the program: they are a parameter of every check. Each operation may
  raise, so each returns a sum.
\<close>

datatype gtype = Point | LineString | LinearRing | Polygon
  | MultiPoint | MultiLineString | MultiPolygon | GeometryCollection

record ('g, 'c) engine =
  geom_type :: "'g \<Rightarrow> gtype"
  intersects :: "'g \<Rightarrow> 'g \<Rightarrow> exn + bool"
  overlaps :: "'g \<Rightarrow> 'g \<Rightarrow> exn + bool"
  contains :: "'g \<Rightarrow> 'g \<Rightarrow> exn + bool"
  intersection :: "'g \<Rightarrow> 'g \<Rightarrow> exn + 'g"
  difference :: "'g \<Rightarrow> 'g \<Rightarrow> exn + 'g"
  buffer :: "'g \<Rightarrow> real \<Rightarrow> exn + 'g"
  unary_union :: "'g list \<Rightarrow> exn + 'g"
  area :: "'g \<Rightarrow> exn + real"
  is_valid :: "'g \<Rightarrow> exn + bool"
  is_simple :: "'g \<Rightarrow> exn + bool"
  is_empty :: "'g \<Rightarrow> exn + bool"
  coords :: "'g \<Rightarrow> 'c list"
  point :: "'c \<Rightarrow> exn + 'g"
  sindex_intersection :: "'g list \<Rightarrow> 'g \<Rightarrow> exn + nat list"

text \<open>
  \<^verbatim>\<open>sindex_intersection gs g\<close> is \<^verbatim>\<open>list(gdf.sindex.intersection(g.bounds))\<close> for the
  frame built from \<^verbatim>\<open>gs\<close>: the positions of the candidates, in the index's own order.
\<close>

section \<open>The validator's state\<close>

record condition =
  attribute :: "string option"
  cond_values :: "pyval list option"

record rules =
  allow_intersection_if :: "condition list option"
  allow_overlap_if :: "condition list option"

text \<open>
  The configuration is the global settings merged with the dataset's rules
  (\<^verbatim>\<open>_load_config\<close>), so the two condition lists appear in it as well.
\<close>

record config =
  id_attribute :: "string option"
  output_folder_name :: "string option"
  enabled_checks :: "(string \<times> bool) list option"
  tolerances :: "(string \<times> real) list option"
  min_intersection_area :: "real option"
  cfg_allow_intersection_if :: "condition list option"
  cfg_allow_overlap_if :: "condition list option"

type_synonym 'g feature = "'g \<times> attrs"

type_synonym 'g intersection_issue = "'g \<times> 'g \<times> 'g \<times> attrs \<times> attrs"

type_synonym 'g pair_issue = "'g \<times> 'g \<times> attrs \<times> attrs"

record 'g topology_test =
  geojson_file :: string
  dataset_type :: string
  config :: config
  rules :: rules
  geometries :: "'g feature list"
  invalid_intersections :: "'g intersection_issue list option"

section \<open>The rule evaluator\<close>

text \<open>\<^verbatim>\<open>condition.get("values", [])\<close> and \<^verbatim>\<open>self.rules.get("allow_intersection_if", [])\<close>.\<close>

definition allowed_values :: "condition \<Rightarrow> pyval list" where
  "allowed_values c = (case cond_values c of None \<Rightarrow> [] | Some vs \<Rightarrow> vs)"

definition intersection_conditions :: "'g topology_test \<Rightarrow> condition list" where
  "intersection_conditions self =
     (case allow_intersection_if (rules self) of None \<Rightarrow> [] | Some cs \<Rightarrow> cs)"

text \<open>The \<^verbatim>\<open>for condition in conditions\<close> loop of \<^verbatim>\<open>_is_valid_intersection\<close>.\<close>

fun conditions_loop :: "attrs \<Rightarrow> attrs \<Rightarrow> condition list \<Rightarrow> bool" where
  "conditions_loop attr1 attr2 [] = False"
| "conditions_loop attr1 attr2 (c # cs) =
     (if py_in (attrs_get attr1 (attribute c)) (allowed_values c)
         \<or> py_in (attrs_get attr2 (attribute c)) (allowed_values c)
      then True
      else conditions_loop attr1 attr2 cs)"

definition is_valid_intersection :: "'g topology_test \<Rightarrow> attrs \<Rightarrow> attrs \<Rightarrow> bool" where
  "is_valid_intersection self attr1 attr2 =
     (let conditions = intersection_conditions self in
      if conditions = [] then False
      else conditions_loop attr1 attr2 conditions)"

section \<open>The intersection check\<close>

text \<open>\<^verbatim>\<open>gdf.iterrows()\<close>: the rows with their index labels \<open>0, 1, ...\<close>.\<close>

definition iterrows :: "'a list \<Rightarrow> (nat \<times> 'a) list" where
  "iterrows gdf = enumerate 0 gdf"

text \<open>\<^verbatim>\<open>gdf.iloc[positions]\<close>: the selected rows with their labels; a position out of range raises.\<close>

definition iloc :: "'a list \<Rightarrow> nat list \<Rightarrow> exn + (nat \<times> 'a) list" where
  "iloc gdf positions =
     (if list_all (\<lambda>i. i < length gdf) positions
      then Inr (map (\<lambda>i. (i, gdf ! i)) positions)
      else Inl IndexError)"

text \<open>\<^verbatim>\<open>self.config.get("min_intersection_area", 0)\<close>.\<close>

definition area_threshold :: "'g topology_test \<Rightarrow> real" where
  "area_threshold self = (case min_intersection_area (config self) of None \<Rightarrow> 0 | Some m \<Rightarrow> m)"

text \<open>
  The body of the inner loop for one pair that passed the index guard: the issue to
  append, if any. A failure of \<^verbatim>\<open>intersects\<close> is outside the \<^verbatim>\<open>try\<close> and propagates.
\<close>

definition check_pair ::
  "('g, 'c) engine \<Rightarrow> 'g topology_test \<Rightarrow> 'g feature \<Rightarrow> 'g feature
     \<Rightarrow> exn + 'g intersection_issue option" where
  "check_pair E self row match =
     ebind (intersects E (fst row) (fst match)) (\<lambda>hit.
       if hit then
         if \<not> is_valid_intersection self (snd row) (snd match) then
           try_except
             (ebind (intersection E (fst row) (fst match)) (\<lambda>inter_geom.
              ebind (is_valid E inter_geom) (\<lambda>valid.
                if \<not> valid then Inr None
                else ebind (area E inter_geom) (\<lambda>a.
                  if a \<ge> area_threshold self
                  then Inr (Some (fst row, fst match, inter_geom, snd row, snd match))
                  else Inr None))))
             (\<lambda>e. Inr None)
         else Inr None
       else Inr None)"

text \<open>
  The inner loop over the candidate rows. Besides the list of issues it carries a
  ghost list: the pairs (row label, candidate label) that passed the guard
  \<^verbatim>\<open>idx >= match.name\<close> and were handed to the geometry test.
\<close>

fun match_loop ::
  "('g, 'c) engine \<Rightarrow> 'g topology_test \<Rightarrow> nat \<times> 'g feature \<Rightarrow> (nat \<times> 'g feature) list
     \<Rightarrow> 'g intersection_issue list \<times> (nat \<times> nat) list
     \<Rightarrow> (exn + 'g intersection_issue list) \<times> (nat \<times> nat) list" where
  "match_loop E self (idx, row) [] (invalid, evaluated) = (Inr invalid, evaluated)"
| "match_loop E self (idx, row) ((name, match) # ms) (invalid, evaluated) =
     (if idx \<ge> name then match_loop E self (idx, row) ms (invalid, evaluated)
      else
        (case check_pair E self row match of
           Inl e \<Rightarrow> (Inl e, evaluated @ [(idx, name)])
         | Inr None \<Rightarrow> match_loop E self (idx, row) ms (invalid, evaluated @ [(idx, name)])
         | Inr (Some issue) \<Rightarrow>
             match_loop E self (idx, row) ms (invalid @ [issue], evaluated @ [(idx, name)])))"

fun rows_loop ::
  "('g, 'c) engine \<Rightarrow> 'g topology_test \<Rightarrow> 'g feature list \<Rightarrow> (nat \<times> 'g feature) list
     \<Rightarrow> 'g intersection_issue list \<times> (nat \<times> nat) list
     \<Rightarrow> (exn + 'g intersection_issue list) \<times> (nat \<times> nat) list" where
  "rows_loop E self gdf [] (invalid, evaluated) = (Inr invalid, evaluated)"
| "rows_loop E self gdf ((idx, row) # rs) (invalid, evaluated) =
     (case ebind (sindex_intersection E (map fst gdf) (fst row)) (iloc gdf) of
        Inl e \<Rightarrow> (Inl e, evaluated)
      | Inr possible_matches \<Rightarrow>
          (case match_loop E self (idx, row) possible_matches (invalid, evaluated) of
             (Inl e, evaluated') \<Rightarrow> (Inl e, evaluated')
           | (Inr invalid', evaluated') \<Rightarrow> rows_loop E self gdf rs (invalid', evaluated')))"

definition intersections_run ::
  "('g, 'c) engine \<Rightarrow> 'g topology_test
     \<Rightarrow> (exn + 'g intersection_issue list) \<times> (nat \<times> nat) list" where
  "intersections_run E self =
     rows_loop E self (geometries self) (iterrows (geometries self)) ([], [])"

text \<open>
  \<^verbatim>\<open>check_intersections\<close>: the cached list when there is one, else the loops; the
  result is stored in \<^verbatim>\<open>self.invalid_intersections\<close> only when the loops return.
\<close>

definition check_intersections ::
  "('g, 'c) engine \<Rightarrow> 'g topology_test
     \<Rightarrow> (exn + 'g intersection_issue list) \<times> 'g topology_test" where
  "check_intersections E self =
     (case invalid_intersections self of
        Some cached \<Rightarrow> (Inr cached, self)
      | None \<Rightarrow>
          (case fst (intersections_run E self) of
             Inl e \<Rightarrow> (Inl e, self)
           | Inr invalid \<Rightarrow> (Inr invalid, self\<lparr>invalid_intersections := Some invalid\<rparr>)))"

text \<open>The pairs that one call of \<^verbatim>\<open>check_intersections\<close> hands to the geometry test.\<close>

definition evaluated_pairs ::
  "('g, 'c) engine \<Rightarrow> 'g topology_test \<Rightarrow> (nat \<times> nat) list" where
  "evaluated_pairs E self =
     (case invalid_intersections self of
        Some cached \<Rightarrow> []
      | None \<Rightarrow> snd (intersections_run E self))"

section \<open>The other checks\<close>

fun self_intersections_loop ::
  "('g, 'c) engine \<Rightarrow> 'g feature list \<Rightarrow> 'g feature list \<Rightarrow> exn + 'g feature list" where
  "self_intersections_loop E [] self_intersections = Inr self_intersections"
| "self_intersections_loop E ((geom, attrs) # rest) self_intersections =
     (case is_simple E geom of
        Inl e \<Rightarrow> Inl e
      | Inr simple \<Rightarrow>
          self_intersections_loop E rest
            (if \<not> simple then self_intersections @ [(geom, attrs)] else self_intersections))"

definition check_self_intersections ::
  "('g, 'c) engine \<Rightarrow> 'g topology_test \<Rightarrow> exn + 'g feature list" where
  "check_self_intersections E self = self_intersections_loop E (geometries self) []"

text \<open>
  \<^verbatim>\<open>check_gaps\<close>: \<^verbatim>\<open>None\<close> is "no gaps". \<^verbatim>\<open>isinstance(geom, Polygon)\<close> holds for the
  geometries of type Polygon only (a MultiPolygon is not a Polygon).
\<close>

definition gap_region :: "('g, 'c) engine \<Rightarrow> 'g list \<Rightarrow> real \<Rightarrow> exn + 'g" where
  "gap_region E polygons tolerance =
     ebind (unary_union E polygons) (\<lambda>all_polys.
     ebind (buffer E all_polys tolerance) (\<lambda>buffered.
       difference E buffered all_polys))"

definition polygons_of :: "('g, 'c) engine \<Rightarrow> 'g topology_test \<Rightarrow> 'g list" where
  "polygons_of E self = [geom \<leftarrow> map fst (geometries self). geom_type E geom = Polygon]"

definition check_gaps ::
  "('g, 'c) engine \<Rightarrow> 'g topology_test \<Rightarrow> real \<Rightarrow> exn + 'g option" where
  "check_gaps E self tolerance =
     (if geometries self = [] then Inr None
      else
        let polygons = polygons_of E self in
        if polygons = [] then Inr None
        else
          try_except
            (ebind (gap_region E polygons tolerance) (\<lambda>gaps.
             ebind (is_empty E gaps) (\<lambda>empty.
               if empty then Inr None else Inr (Some gaps))))
            (\<lambda>e. Inr None))"

text \<open>
  The names bound at module level in the file that defines \<^verbatim>\<open>check_dangles\<close>: its
  imports and the class. Reading any other global name raises \<^verbatim>\<open>NameError\<close>.
\<close>

definition module_globals :: "string list" where
  "module_globals =
     [''geojson'', ''os'', ''json'', ''mapping'', ''MultiPolygon'', ''MultiLineString'',
      ''Polygon'', ''unary_union'', ''combinations'', ''gpd'', ''TopologyTest'']"

definition load_global :: "string \<Rightarrow> exn + unit" where
  "load_global name = (if name \<in> set module_globals then Inr () else Inl (NameError name))"

definition coords_first :: "'c list \<Rightarrow> exn + 'c" where
  "coords_first cs = (case cs of [] \<Rightarrow> Inl IndexError | c # _ \<Rightarrow> Inr c)"

definition coords_last :: "'c list \<Rightarrow> exn + 'c" where
  "coords_last cs = (if cs = [] then Inl IndexError else Inr (last cs))"

text \<open>
  The body of the dangle loop for one LineString: whether it is appended. The callee
  \<^verbatim>\<open>Point\<close> is looked up before its argument is evaluated; \<^verbatim>\<open>or\<close> evaluates its
  second operand only when the first is false.
\<close>

definition line_dangles :: "('g, 'c) engine \<Rightarrow> 'g \<Rightarrow> 'g \<Rightarrow> exn + bool" where
  "line_dangles E network geom =
     ebind (load_global ''Point'') (\<lambda>_.
     ebind (coords_first (coords E geom)) (\<lambda>c0.
     ebind (point E c0) (\<lambda>start_point.
     ebind (load_global ''Point'') (\<lambda>_.
     ebind (coords_last (coords E geom)) (\<lambda>c1.
     ebind (point E c1) (\<lambda>end_point.
     ebind (difference E network geom) (\<lambda>others.
     ebind (intersects E others start_point) (\<lambda>start_touches.
       if \<not> start_touches then Inr True
       else
         ebind (difference E network geom) (\<lambda>others'.
         ebind (intersects E others' end_point) (\<lambda>end_touches.
           Inr (\<not> end_touches)))))))))))"

fun dangles_loop ::
  "('g, 'c) engine \<Rightarrow> 'g \<Rightarrow> 'g feature list \<Rightarrow> 'g feature list \<Rightarrow> exn + 'g feature list" where
  "dangles_loop E network [] dangles = Inr dangles"
| "dangles_loop E network ((geom, attrs) # rest) dangles =
     (if geom_type E geom = LineString then
        (case line_dangles E network geom of
           Inl e \<Rightarrow> Inl e
         | Inr dangling \<Rightarrow>
             dangles_loop E network rest
               (if dangling then dangles @ [(geom, attrs)] else dangles))
      else dangles_loop E network rest dangles)"

definition check_dangles ::
  "('g, 'c) engine \<Rightarrow> 'g topology_test \<Rightarrow> exn + 'g feature list" where
  "check_dangles E self =
     ebind (unary_union E (map fst (geometries self))) (\<lambda>network.
       dangles_loop E network (geometries self) [])"

text \<open>
  \<^verbatim>\<open>check_overlaps\<close> and \<^verbatim>\<open>check_containment\<close>: row \<open>idx1\<close> against the rows
  \<^verbatim>\<open>gdf.iloc[idx1+1:]\<close>. Neither reads the rules or the configuration.
\<close>

fun overlaps_inner ::
  "('g, 'c) engine \<Rightarrow> real \<Rightarrow> 'g feature \<Rightarrow> 'g feature list \<Rightarrow> 'g pair_issue list
     \<Rightarrow> exn + 'g pair_issue list" where
  "overlaps_inner E tolerance row1 [] found = Inr found"
| "overlaps_inner E tolerance row1 (row2 # rest) found =
     (case overlaps E (fst row1) (fst row2) of
        Inl e \<Rightarrow> Inl e
      | Inr hit \<Rightarrow>
          if hit then
            (case ebind (intersection E (fst row1) (fst row2)) (area E) of
               Inl e \<Rightarrow> Inl e
             | Inr overlap_area \<Rightarrow>
                 overlaps_inner E tolerance row1 rest
                   (if overlap_area > tolerance
                    then found @ [(fst row1, fst row2, snd row1, snd row2)]
                    else found))
          else overlaps_inner E tolerance row1 rest found)"

fun overlaps_outer ::
  "('g, 'c) engine \<Rightarrow> real \<Rightarrow> 'g feature list \<Rightarrow> (nat \<times> 'g feature) list
     \<Rightarrow> 'g pair_issue list \<Rightarrow> exn + 'g pair_issue list" where
  "overlaps_outer E tolerance gdf [] found = Inr found"
| "overlaps_outer E tolerance gdf ((idx1, row1) # rs) found =
     (case overlaps_inner E tolerance row1 (drop (idx1 + 1) gdf) found of
        Inl e \<Rightarrow> Inl e
      | Inr found' \<Rightarrow> overlaps_outer E tolerance gdf rs found')"

definition check_overlaps ::
  "('g, 'c) engine \<Rightarrow> 'g topology_test \<Rightarrow> real \<Rightarrow> exn + 'g pair_issue list" where
  "check_overlaps E self tolerance =
     overlaps_outer E tolerance (geometries self) (iterrows (geometries self)) []"

fun containment_inner ::
  "('g, 'c) engine \<Rightarrow> 'g feature \<Rightarrow> 'g feature list \<Rightarrow> 'g pair_issue list
     \<Rightarrow> exn + 'g pair_issue list" where
  "containment_inner E row1 [] containment_issues = Inr containment_issues"
| "containment_inner E row1 (row2 # rest) containment_issues =
     (case contains E (fst row1) (fst row2) of
        Inl e \<Rightarrow> Inl e
      | Inr hit \<Rightarrow>
          containment_inner E row1 rest
            (if hit
             then containment_issues @ [(fst row1, fst row2, snd row1, snd row2)]
             else containment_issues))"

fun containment_outer ::
  "('g, 'c) engine \<Rightarrow> 'g feature list \<Rightarrow> (nat \<times> 'g feature) list
     \<Rightarrow> 'g pair_issue list \<Rightarrow> exn + 'g pair_issue list" where
  "containment_outer E gdf [] containment_issues = Inr containment_issues"
| "containment_outer E gdf ((idx1, row1) # rs) containment_issues =
     (case containment_inner E row1 (drop (idx1 + 1) gdf) containment_issues of
        Inl e \<Rightarrow> Inl e
      | Inr issues' \<Rightarrow> containment_outer E gdf rs issues')"

definition check_containment ::
  "('g, 'c) engine \<Rightarrow> 'g topology_test \<Rightarrow> exn + 'g pair_issue list" where
  "check_containment E self =
     containment_outer E (geometries self) (iterrows (geometries self)) []"

section \<open>The orchestrator\<close>

text \<open>The value stored under a check's name: a list of issues, or the gap geometry.\<close>

datatype 'g check_result =
    Intersections "'g intersection_issue list"
  | Features "'g feature list"
  | Gaps 'g
  | Pairs "'g pair_issue list"

type_synonym 'g results = "(string \<times> 'g check_result) list"

text \<open>\<^verbatim>\<open>self.config.get('enabled_checks', {}).get(name, True)\<close>.\<close>

definition enabled :: "'g topology_test \<Rightarrow> string \<Rightarrow> bool" where
  "enabled self name =
     (case enabled_checks (config self) of
        None \<Rightarrow> True
      | Some checks \<Rightarrow> (case map_of checks name of None \<Rightarrow> True | Some b \<Rightarrow> b))"

text \<open>The filter of the last statement: a list is kept when it is not empty, a geometry always.\<close>

fun keep_result :: "'g check_result \<Rightarrow> bool" where
  "keep_result (Intersections v) = (length v > 0)"
| "keep_result (Features v) = (length v > 0)"
| "keep_result (Pairs v) = (length v > 0)"
| "keep_result (Gaps v) = True"

text \<open>
  \<^verbatim>\<open>validate_topology\<close>: the checks run in this order, none inside a \<^verbatim>\<open>try\<close>; the gap
  and overlap checks are called with their default tolerance \<open>0.0\<close>.
\<close>

definition validate_topology ::
  "('g, 'c) engine \<Rightarrow> 'g topology_test \<Rightarrow> (exn + 'g results) \<times> 'g topology_test" where
  "validate_topology E self =
     (case (if enabled self ''intersections''
            then (case check_intersections E self of
                    (Inl e, self') \<Rightarrow> (Inl e, self')
                  | (Inr v, self') \<Rightarrow> (Inr [(''intersections'', Intersections v)], self'))
            else (Inr [], self)) of
        (Inl e, self') \<Rightarrow> (Inl e, self')
      | (Inr results, self') \<Rightarrow>
          (ebind (if enabled self' ''self_intersections''
                  then ebind (check_self_intersections E self') (\<lambda>v.
                         Inr (results @ [(''self_intersections'', Features v)]))
                  else Inr results) (\<lambda>results.
           ebind (if enabled self' ''gaps''
                  then ebind (check_gaps E self' 0) (\<lambda>gaps.
                         case gaps of
                           None \<Rightarrow> Inr results
                         | Some g \<Rightarrow> Inr (results @ [(''gaps'', Gaps g)]))
                  else Inr results) (\<lambda>results.
           ebind (if enabled self' ''dangles''
                  then ebind (check_dangles E self') (\<lambda>v.
                         Inr (results @ [(''dangles'', Features v)]))
                  else Inr results) (\<lambda>results.
           ebind (if enabled self' ''overlaps''
                  then ebind (check_overlaps E self' 0) (\<lambda>v.
                         Inr (results @ [(''overlaps'', Pairs v)]))
                  else Inr results) (\<lambda>results.
           ebind (if enabled self' ''containment''
                  then ebind (check_containment E self') (\<lambda>v.
                         Inr (results @ [(''containment'', Pairs v)]))
                  else Inr results) (\<lambda>results.
             Inr [(k, v) \<leftarrow> results. keep_result v]))))),
           self'))"

section \<open>A small geometry library for examples\<close>

text \<open>
  A raster library: a geometry is a type tag and the list of unit cells it covers.
  Overlay operations raise on a geometry marked as broken, as the real library does
  on coordinates it cannot process. It is used at concrete inputs only.
\<close>

datatype raster = Raster gtype "(int \<times> int) list" | Broken gtype

fun raster_type :: "raster \<Rightarrow> gtype" where
  "raster_type (Raster t cs) = t"
| "raster_type (Broken t) = t"

fun raster_cells :: "raster \<Rightarrow> exn + (int \<times> int) list" where
  "raster_cells (Raster t cs) = Inr cs"
| "raster_cells (Broken t) = Inl (GeometryError ''TopologyException'')"

definition raster_intersects :: "raster \<Rightarrow> raster \<Rightarrow> exn + bool" where
  "raster_intersects a b =
     ebind (raster_cells a) (\<lambda>xs. ebind (raster_cells b) (\<lambda>ys.
       Inr (list_ex (\<lambda>c. c \<in> set ys) xs)))"

definition raster_contains :: "raster \<Rightarrow> raster \<Rightarrow> exn + bool" where
  "raster_contains a b =
     ebind (raster_cells a) (\<lambda>xs. ebind (raster_cells b) (\<lambda>ys.
       Inr (ys \<noteq> [] \<and> list_all (\<lambda>c. c \<in> set xs) ys)))"

definition raster_overlaps :: "raster \<Rightarrow> raster \<Rightarrow> exn + bool" where
  "raster_overlaps a b =
     ebind (raster_cells a) (\<lambda>xs. ebind (raster_cells b) (\<lambda>ys.
       Inr (list_ex (\<lambda>c. c \<in> set ys) xs
            \<and> \<not> list_all (\<lambda>c. c \<in> set xs) ys \<and> \<not> list_all (\<lambda>c. c \<in> set ys) xs)))"

definition raster_intersection :: "raster \<Rightarrow> raster \<Rightarrow> exn + raster" where
  "raster_intersection a b =
     ebind (raster_cells a) (\<lambda>xs. ebind (raster_cells b) (\<lambda>ys.
       Inr (Raster (raster_type a) [c \<leftarrow> xs. c \<in> set ys])))"

definition raster_difference :: "raster \<Rightarrow> raster \<Rightarrow> exn + raster" where
  "raster_difference a b =
     ebind (raster_cells a) (\<lambda>xs. ebind (raster_cells b) (\<lambda>ys.
       Inr (Raster (raster_type a) [c \<leftarrow> xs. c \<notin> set ys])))"

fun raster_union :: "raster list \<Rightarrow> exn + raster" where
  "raster_union [] = Inr (Raster GeometryCollection [])"
| "raster_union (g # gs) =
     ebind (raster_cells g) (\<lambda>xs. ebind (raster_union gs) (\<lambda>u.
       ebind (raster_cells u) (\<lambda>ys.
         Inr (Raster GeometryCollection (xs @ [c \<leftarrow> ys. c \<notin> set xs])))))"

text \<open>Buffering grows a raster by \<open>\<lceil>d\<rceil>\<close> cells in the four axis directions, one ring at a time.\<close>

fun grow :: "nat \<Rightarrow> (int \<times> int) list \<Rightarrow> (int \<times> int) list" where
  "grow 0 cs = cs"
| "grow (Suc n) cs =
     grow n (remdups (cs @ concat (map (\<lambda>(x, y). [(x + 1, y), (x - 1, y), (x, y + 1), (x, y - 1)]) cs)))"

definition raster_buffer :: "raster \<Rightarrow> real \<Rightarrow> exn + raster" where
  "raster_buffer a d =
     ebind (raster_cells a) (\<lambda>xs. Inr (Raster (raster_type a) (grow (nat \<lceil>d\<rceil>) xs)))"

definition raster_area :: "raster \<Rightarrow> exn + real" where
  "raster_area a = ebind (raster_cells a) (\<lambda>xs. Inr (real (length (remdups xs))))"

definition raster_is_empty :: "raster \<Rightarrow> exn + bool" where
  "raster_is_empty a = ebind (raster_cells a) (\<lambda>xs. Inr (xs = []))"

fun raster_coords :: "raster \<Rightarrow> (int \<times> int) list" where
  "raster_coords (Raster t cs) = cs"
| "raster_coords (Broken t) = []"

definition raster_engine :: "(raster, int \<times> int) engine" where
  "raster_engine =
     \<lparr> geom_type = raster_type,
       intersects = raster_intersects,
       overlaps = raster_overlaps,
       contains = raster_contains,
       intersection = raster_intersection,
       difference = raster_difference,
       buffer = raster_buffer,
       unary_union = raster_union,
       area = raster_area,
       is_valid = (\<lambda>g. Inr True),
       is_simple = (\<lambda>g. Inr True),
       is_empty = raster_is_empty,
       coords = raster_coords,
       point = (\<lambda>c. Inr (Raster Point [c])),
       sindex_intersection = (\<lambda>gs g. Inr [0..<length gs]) \<rparr>"

text \<open>The default configuration of \<^verbatim>\<open>_load_config\<close> and a validator built on it.\<close>

definition default_config :: config where
  "default_config =
     \<lparr> id_attribute = Some ''id'',
       output_folder_name = Some ''TopologyTest_Output'',
       enabled_checks = Some [(''intersections'', True), (''self_intersections'', True),
         (''gaps'', True), (''dangles'', True), (''overlaps'', True), (''containment'', True)],
       tolerances = Some [(''gap'', 0), (''overlap'', 0)],
       min_intersection_area = None,
       cfg_allow_intersection_if = Some [],
       cfg_allow_overlap_if = Some [] \<rparr>"

definition no_rules :: rules where
  "no_rules = \<lparr> allow_intersection_if = Some [], allow_overlap_if = Some [] \<rparr>"

definition validator :: "config \<Rightarrow> rules \<Rightarrow> 'g feature list \<Rightarrow> 'g topology_test" where
  "validator cfg rs gs =
     \<lparr> geojson_file = ''data.geojson'', dataset_type = ''buildings'',
       config = cfg, rules = rs, geometries = gs, invalid_intersections = None \<rparr>"

section \<open>Example collections\<close>

definition inner_square :: raster where
  "inner_square = Raster Polygon [(1, 1)]"

definition outer_square :: raster where
  "outer_square = Raster Polygon
     [(0, 0), (0, 1), (0, 2), (1, 0), (1, 1), (1, 2), (2, 0), (2, 1), (2, 2)]"

definition west_block :: raster where
  "west_block = Raster Polygon [(0, 0), (1, 0)]"

definition east_block :: raster where
  "east_block = Raster Polygon [(1, 0), (2, 0)]"

definition isolated_line :: raster where
  "isolated_line = Raster LineString [(5, 5), (6, 5)]"

text \<open>The inner square is listed before the square that contains it.\<close>

definition inner_listed_first :: "raster topology_test" where
  "inner_listed_first =
     validator default_config no_rules
       [(inner_square, [(''id'', PInt 1)]), (outer_square, [(''id'', PInt 2)])]"

definition outer_listed_first :: "raster topology_test" where
  "outer_listed_first =
     validator default_config no_rules
       [(outer_square, [(''id'', PInt 2)]), (inner_square, [(''id'', PInt 1)])]"

definition two_blocks :: "raster topology_test" where
  "two_blocks =
     validator default_config no_rules
       [(west_block, [(''id'', PInt 1)]), (east_block, [(''id'', PInt 2)])]"

definition two_blocks_min_area :: "raster topology_test" where
  "two_blocks_min_area =
     validator (default_config\<lparr>min_intersection_area := Some 5\<rparr>) no_rules
       [(west_block, [(''id'', PInt 1)]), (east_block, [(''id'', PInt 2)])]"

definition blocks_and_line :: "raster topology_test" where
  "blocks_and_line =
     validator default_config no_rules
       [(west_block, [(''id'', PInt 1)]), (east_block, [(''id'', PInt 2)]),
        (isolated_line, [(''id'', PInt 3)])]"

definition one_line :: "raster topology_test" where
  "one_line = validator default_config no_rules [(isolated_line, [(''id'', PInt 3)])]"

definition one_block :: "raster topology_test" where
  "one_block = validator default_config no_rules [(west_block, [(''id'', PInt 1)])]"

definition broken_polygon :: "raster topology_test" where
  "broken_polygon = validator default_config no_rules [(Broken Polygon, [(''id'', PInt 1)])]"

definition multipolygon_mosaic :: "raster topology_test" where
  "multipolygon_mosaic =
     validator default_config no_rules
       [(Raster MultiPolygon [(0, 0), (2, 0)], [(''id'', PInt 1)]),
        (Raster MultiPolygon [(4, 0)], [(''id'', PInt 2)])]"

text \<open>A rule whose allowed values hold \<^verbatim>\<open>null\<close>, and the bridge rule of the road data.\<close>

definition null_rule :: "raster topology_test" where
  "null_rule =
     validator default_config
       \<lparr> allow_intersection_if =
           Some [\<lparr> attribute = Some ''type'', cond_values = Some [PNone] \<rparr>],
         allow_overlap_if = Some [] \<rparr> []"

definition bridge_rule :: "raster topology_test" where
  "bridge_rule =
     validator default_config
       \<lparr> allow_intersection_if =
           Some [\<lparr> attribute = Some ''type'', cond_values = Some [PStr ''bridge''] \<rparr>],
         allow_overlap_if = Some [] \<rparr> []"

section \<open>Evaluation of the examples\<close>

lemmas raster_defs = raster_engine_def raster_intersects_def raster_contains_def
  raster_overlaps_def raster_intersection_def raster_difference_def raster_buffer_def
  raster_area_def raster_is_empty_def ebind_def try_except_def

lemmas example_defs = validator_def default_config_def no_rules_def inner_square_def
  outer_square_def west_block_def east_block_def isolated_line_def

lemmas run_defs = intersections_run_def iterrows_def enumerate_eq_zip iloc_def check_pair_def
  is_valid_intersection_def intersection_conditions_def area_threshold_def

lemma fresh_examples:
  "invalid_intersections two_blocks = None"
  "invalid_intersections two_blocks_min_area = None"
  "invalid_intersections blocks_and_line = None"
  by (simp_all add: two_blocks_def two_blocks_min_area_def blocks_and_line_def validator_def)

lemma run_two_blocks:
  "intersections_run raster_engine two_blocks
     = (Inr [(west_block, east_block, Raster Polygon [(1, 0)],
              [(''id'', PInt 1)], [(''id'', PInt 2)])],
        [(0, 1)])"
  by (simp add: two_blocks_def example_defs raster_defs run_defs)

lemma run_two_blocks_min_area:
  "intersections_run raster_engine two_blocks_min_area = (Inr [], [(0, 1)])"
  by (simp add: two_blocks_min_area_def example_defs raster_defs run_defs)

lemma run_blocks_and_line:
  "intersections_run raster_engine blocks_and_line
     = (Inr [(west_block, east_block, Raster Polygon [(1, 0)],
              [(''id'', PInt 1)], [(''id'', PInt 2)])],
        [(0, 1), (0, 2), (1, 2)])"
  by (simp add: blocks_and_line_def example_defs raster_defs run_defs)

lemma intersections_two_blocks:
  "check_intersections raster_engine two_blocks
     = (Inr [(west_block, east_block, Raster Polygon [(1, 0)],
              [(''id'', PInt 1)], [(''id'', PInt 2)])],
        two_blocks\<lparr>invalid_intersections :=
          Some [(west_block, east_block, Raster Polygon [(1, 0)],
                 [(''id'', PInt 1)], [(''id'', PInt 2)])]\<rparr>)"
  by (simp add: check_intersections_def fresh_examples run_two_blocks)

lemma intersections_blocks_and_line:
  "check_intersections raster_engine blocks_and_line
     = (Inr [(west_block, east_block, Raster Polygon [(1, 0)],
              [(''id'', PInt 1)], [(''id'', PInt 2)])],
        blocks_and_line\<lparr>invalid_intersections :=
          Some [(west_block, east_block, Raster Polygon [(1, 0)],
                 [(''id'', PInt 1)], [(''id'', PInt 2)])]\<rparr>)"
  by (simp add: check_intersections_def fresh_examples run_blocks_and_line)

lemma checks_blocks_and_line:
  "check_self_intersections raster_engine blocks_and_line = Inr []"
  "check_gaps raster_engine blocks_and_line 0 = Inr None"
  "check_dangles raster_engine blocks_and_line = Inl (NameError ''Point'')"
  by (simp_all add: blocks_and_line_def example_defs check_self_intersections_def check_gaps_def
      polygons_of_def gap_region_def check_dangles_def line_dangles_def load_global_def
      module_globals_def raster_defs)

lemma enabled_blocks_and_line:
  "enabled blocks_and_line ''intersections''"
  "enabled blocks_and_line ''self_intersections''"
  "enabled blocks_and_line ''gaps''"
  "enabled blocks_and_line ''dangles''"
  by (simp_all add: blocks_and_line_def example_defs enabled_def)

section \<open>The rule evaluator: proofs\<close>

lemma conditions_loop_iff:
  "conditions_loop a1 a2 cs \<longleftrightarrow>
     (\<exists>c\<in>set cs. py_in (attrs_get a1 (attribute c)) (allowed_values c)
                  \<or> py_in (attrs_get a2 (attribute c)) (allowed_values c))"
  by (induction cs) auto

lemma is_valid_intersection_iff:
  "is_valid_intersection self a1 a2 \<longleftrightarrow>
     (\<exists>c\<in>set (intersection_conditions self).
        py_in (attrs_get a1 (attribute c)) (allowed_values c)
        \<or> py_in (attrs_get a2 (attribute c)) (allowed_values c))"
  by (auto simp: is_valid_intersection_def Let_def conditions_loop_iff)

text \<open>A lookup matches through a value that is present, or through \<^verbatim>\<open>None\<close> for a missing key.\<close>

lemma py_in_attrs_get:
  "py_in (attrs_get d key) vs \<longleftrightarrow>
     (\<exists>k v. key = Some k \<and> map_of d k = Some v \<and> py_in v vs)
     \<or> (py_in PNone vs \<and> (key = None \<or> (\<exists>k. key = Some k \<and> map_of d k = None)))"
  by (auto simp: attrs_get_def split: option.splits)

lemma no_conditions_not_valid:
  "intersection_conditions self = [] \<Longrightarrow> \<not> is_valid_intersection self attr1 attr2"
  by (simp add: is_valid_intersection_def)

text \<open>
  C7 (as the code has it). A feature that lacks the condition's attribute is read as
  \<^verbatim>\<open>None\<close>, never as an error. The rule evaluator returns true exactly when some
  condition is met through a value present in one of the two features, or holds
  \<^verbatim>\<open>null\<close> among its allowed values while one of the two features lacks the attribute.
\<close>

theorem missing_attribute_is_null:
  "is_valid_intersection self attr1 attr2 \<longleftrightarrow>
     (\<exists>c\<in>set (intersection_conditions self).
        (\<exists>k v. attribute c = Some k \<and> (map_of attr1 k = Some v \<or> map_of attr2 k = Some v)
           \<and> py_in v (allowed_values c))
        \<or> (py_in PNone (allowed_values c)
            \<and> (attribute c = None
                \<or> (\<exists>k. attribute c = Some k \<and> (map_of attr1 k = None \<or> map_of attr2 k = None)))))"
  unfolding is_valid_intersection_iff py_in_attrs_get by blast

text \<open>
  At the bridge rule a road without the attribute and a bridge are allowed through the
  bridge's value; two plain roads are not.
\<close>

theorem missing_attribute_is_null_witness:
  "is_valid_intersection bridge_rule [(''id'', PInt 1)] [(''type'', PStr ''bridge'')]
   \<and> \<not> is_valid_intersection bridge_rule [(''id'', PInt 1)] [(''type'', PStr ''road'')]"
  using missing_attribute_is_null [of bridge_rule "[(''id'', PInt 1)]" "[(''type'', PStr ''bridge'')]"]
    missing_attribute_is_null [of bridge_rule "[(''id'', PInt 1)]" "[(''type'', PStr ''road'')]"]
  by (simp add: bridge_rule_def validator_def intersection_conditions_def allowed_values_def)

text \<open>
  C7 as stated fails: with \<^verbatim>\<open>null\<close> among the allowed values, two features that both
  lack the attribute satisfy the condition.
\<close>

theorem missing_attribute_counterexample:
  "map_of [(''id'', PInt 1)] ''type'' = None \<and> map_of [(''id'', PInt 2)] ''type'' = None
   \<and> is_valid_intersection null_rule [(''id'', PInt 1)] [(''id'', PInt 2)]"
  by (simp add: null_rule_def validator_def is_valid_intersection_def
      intersection_conditions_def allowed_values_def attrs_get_def)

section \<open>The intersection check: proofs\<close>

text \<open>What one run of the inner loop adds to the list of evaluated pairs.\<close>

lemma match_loop_trace:
  "\<exists>ns. snd (match_loop E self (idx, row) ms (acc, ev)) = ev @ map (Pair idx) ns
        \<and> (\<forall>n\<in>set ns. idx < n) \<and> (distinct (map fst ms) \<longrightarrow> distinct ns)
        \<and> set ns \<subseteq> fst ` set ms"
proof (induction ms arbitrary: acc ev)
  case Nil
  show ?case by (rule exI [of _ "[]"]) simp
next
  case (Cons m ms)
  obtain name match where m: "m = (name, match)" by (cases m)
  show ?case
  proof (cases "idx \<ge> name")
    case True
    from Cons.IH [of acc ev] obtain ns where
      "snd (match_loop E self (idx, row) ms (acc, ev)) = ev @ map (Pair idx) ns"
      "\<forall>n\<in>set ns. idx < n" "distinct (map fst ms) \<longrightarrow> distinct ns" "set ns \<subseteq> fst ` set ms"
      by blast
    with True m show ?thesis by (intro exI [of _ ns]) auto
  next
    case False
    show ?thesis
    proof (cases "check_pair E self row match")
      case (Inl e)
      with False m show ?thesis by (intro exI [of _ "[name]"]) auto
    next
      case (Inr r)
      define acc' where "acc' = (case r of None \<Rightarrow> acc | Some issue \<Rightarrow> acc @ [issue])"
      from Cons.IH [of acc' "ev @ [(idx, name)]"] obtain ns where ns:
        "snd (match_loop E self (idx, row) ms (acc', ev @ [(idx, name)]))
           = (ev @ [(idx, name)]) @ map (Pair idx) ns"
        "\<forall>n\<in>set ns. idx < n" "distinct (map fst ms) \<longrightarrow> distinct ns" "set ns \<subseteq> fst ` set ms"
        by blast
      have eq: "match_loop E self (idx, row) (m # ms) (acc, ev)
                 = match_loop E self (idx, row) ms (acc', ev @ [(idx, name)])"
        using False m Inr by (simp add: acc'_def split: option.splits)
      have tr: "snd (match_loop E self (idx, row) (m # ms) (acc, ev))
                 = ev @ map (Pair idx) (name # ns)"
        using eq ns(1) by simp
      have lt: "\<forall>n\<in>set (name # ns). idx < n"
        using ns(2) False by simp
      have di: "distinct (map fst (m # ms)) \<longrightarrow> distinct (name # ns)"
        using ns(3,4) m by auto
      have su: "set (name # ns) \<subseteq> fst ` set (m # ms)"
        using ns(4) m by auto
      from tr lt di su show ?thesis by blast
    qed
  qed
qed

lemma rows_loop_trace:
  assumes "\<forall>p\<in>set ev. fst p < snd p"
  shows "\<forall>p\<in>set (snd (rows_loop E self gdf rs (acc, ev))). fst p < snd p"
  using assms
proof (induction rs arbitrary: acc ev)
  case Nil
  then show ?case by simp
next
  case (Cons r rs)
  obtain idx row where r: "r = (idx, row)" by (cases r)
  show ?case
  proof (cases "ebind (sindex_intersection E (map fst gdf) (fst row)) (iloc gdf)")
    case (Inl e)
    with Cons.prems r show ?thesis by simp
  next
    case (Inr pm)
    obtain res ev' where ml: "match_loop E self (idx, row) pm (acc, ev) = (res, ev')"
      by (cases "match_loop E self (idx, row) pm (acc, ev)")
    from match_loop_trace [of E self idx row pm acc ev] ml obtain ns where
      "ev' = ev @ map (Pair idx) ns" "\<forall>n\<in>set ns. idx < n" by auto
    with Cons.prems have ev': "\<forall>p\<in>set ev'. fst p < snd p" by auto
    show ?thesis
    proof (cases res)
      case (Inl e)
      with Inr ml r ev' show ?thesis by simp
    next
      case (Inr acc')
      with \<open>ebind _ _ = Inr pm\<close> ml r Cons.IH [OF ev', of acc'] show ?thesis by simp
    qed
  qed
qed

lemma iloc_fst: "iloc gdf ps = Inr pm \<Longrightarrow> map fst pm = ps"
  by (auto simp: iloc_def comp_def split: if_splits)

lemma rows_loop_distinct:
  assumes "\<forall>g cs. sindex_intersection E (map fst gdf) g = Inr cs \<longrightarrow> distinct cs"
    and "distinct ev" and "\<forall>p\<in>set ev. fst p \<notin> fst ` set rs" and "distinct (map fst rs)"
  shows "distinct (snd (rows_loop E self gdf rs (acc, ev)))"
  using assms(2-)
proof (induction rs arbitrary: acc ev)
  case Nil
  then show ?case by simp
next
  case (Cons r rs)
  obtain idx row where r: "r = (idx, row)" by (cases r)
  show ?case
  proof (cases "ebind (sindex_intersection E (map fst gdf) (fst row)) (iloc gdf)")
    case (Inl e)
    with Cons.prems r show ?thesis by simp
  next
    case (Inr pm)
    then obtain cs where cs: "sindex_intersection E (map fst gdf) (fst row) = Inr cs"
      "iloc gdf cs = Inr pm"
      by (auto simp: ebind_def split: sum.splits)
    with assms(1) iloc_fst have dpm: "distinct (map fst pm)" by blast
    obtain res ev' where ml: "match_loop E self (idx, row) pm (acc, ev) = (res, ev')"
      by (cases "match_loop E self (idx, row) pm (acc, ev)")
    from match_loop_trace [of E self idx row pm acc ev] ml dpm obtain ns where
      ns: "ev' = ev @ map (Pair idx) ns" "distinct ns" by auto
    have d: "distinct ev'"
      using ns Cons.prems r by (auto simp: distinct_map inj_on_def)
    have "idx \<notin> fst ` set rs"
      using Cons.prems(3) r by simp
    then have f: "\<forall>p\<in>set ev'. fst p \<notin> fst ` set rs"
      using ns(1) Cons.prems(2) by (auto simp: image_iff)
    have dr: "distinct (map fst rs)" using Cons.prems by simp
    show ?thesis
    proof (cases res)
      case (Inl e)
      with Inr ml r d show ?thesis by simp
    next
      case (Inr acc')
      with \<open>ebind _ _ = Inr pm\<close> ml r Cons.IH [OF d f dr, of acc'] show ?thesis by simp
    qed
  qed
qed

lemma distinct_fst_iterrows: "distinct (map fst (iterrows gdf))"
  by (simp add: iterrows_def)

text \<open>
  C4. Every pair that the intersection check hands to the geometry test has its row
  label below its candidate label, so no pair is evaluated in both orders and no
  feature is compared with itself; when the spatial index returns each candidate
  once, no pair is evaluated twice.
\<close>

theorem evaluated_pairs_once:
  "(\<forall>(i, j)\<in>set (evaluated_pairs E self). i < j \<and> (j, i) \<notin> set (evaluated_pairs E self))
   \<and> ((\<forall>g cs. sindex_intersection E (map fst (geometries self)) g = Inr cs \<longrightarrow> distinct cs)
        \<longrightarrow> distinct (evaluated_pairs E self))"
proof -
  have lt: "\<forall>p\<in>set (evaluated_pairs E self). fst p < snd p"
    using rows_loop_trace [of "[]" E self "geometries self" "iterrows (geometries self)" "[]"]
    by (simp add: evaluated_pairs_def intersections_run_def split: option.splits)
  have "\<forall>(i, j)\<in>set (evaluated_pairs E self). i < j \<and> (j, i) \<notin> set (evaluated_pairs E self)"
  proof (clarify, rule conjI)
    fix i j assume m: "(i, j) \<in> set (evaluated_pairs E self)"
    with lt show "i < j" by fastforce
    show "(j, i) \<notin> set (evaluated_pairs E self)"
    proof
      assume "(j, i) \<in> set (evaluated_pairs E self)"
      with lt have "j < i" by fastforce
      moreover from m lt have "i < j" by fastforce
      ultimately show False by simp
    qed
  qed
  moreover have "(\<forall>g cs. sindex_intersection E (map fst (geometries self)) g = Inr cs \<longrightarrow> distinct cs)
        \<longrightarrow> distinct (evaluated_pairs E self)"
    using rows_loop_distinct [of E "geometries self" "[]" "iterrows (geometries self)" self "[]"]
    by (simp add: evaluated_pairs_def intersections_run_def distinct_fst_iterrows
        split: option.splits)
  ultimately show ?thesis by blast
qed

lemma raster_index_distinct:
  "\<forall>g cs. sindex_intersection raster_engine gs g = Inr cs \<longrightarrow> distinct cs"
  by (auto simp: raster_engine_def)

lemma evaluated_blocks_and_line:
  "evaluated_pairs raster_engine blocks_and_line = [(0, 1), (0, 2), (1, 2)]"
  by (simp add: evaluated_pairs_def fresh_examples run_blocks_and_line)

theorem evaluated_pairs_once_witness:
  "evaluated_pairs raster_engine blocks_and_line = [(0, 1), (0, 2), (1, 2)]
   \<and> distinct (evaluated_pairs raster_engine blocks_and_line)
   \<and> (1, 0) \<notin> set (evaluated_pairs raster_engine blocks_and_line)
   \<and> (1, 1) \<notin> set (evaluated_pairs raster_engine blocks_and_line)"
  using evaluated_pairs_once [of raster_engine blocks_and_line] raster_index_distinct
  by (simp add: evaluated_blocks_and_line)

text \<open>What a run of the loops that returns has in its list of issues.\<close>

lemma match_loop_issues:
  assumes "fst (match_loop E self (idx, row) ms (acc, ev)) = Inr acc'"
  shows "set acc \<subseteq> set acc'
         \<and> (\<forall>(name, match)\<in>set ms. idx < name \<longrightarrow>
               (\<forall>issue. check_pair E self row match = Inr (Some issue) \<longrightarrow> issue \<in> set acc'))"
  using assms
proof (induction ms arbitrary: acc ev)
  case Nil
  then show ?case by simp
next
  case (Cons m ms)
  obtain name match where m: "m = (name, match)" by (cases m)
  show ?case
  proof (cases "idx \<ge> name")
    case True
    with Cons.prems m have "fst (match_loop E self (idx, row) ms (acc, ev)) = Inr acc'" by simp
    from Cons.IH [OF this] True m show ?thesis by auto
  next
    case False
    show ?thesis
    proof (cases "check_pair E self row match")
      case (Inl e)
      with False m Cons.prems show ?thesis by simp
    next
      case (Inr r)
      define acc1 where "acc1 = (case r of None \<Rightarrow> acc | Some issue \<Rightarrow> acc @ [issue])"
      have "fst (match_loop E self (idx, row) ms (acc1, ev @ [(idx, name)])) = Inr acc'"
        using False m Inr Cons.prems by (cases r) (auto simp: acc1_def)
      from Cons.IH [OF this]
      have ih: "set acc1 \<subseteq> set acc'"
        "\<forall>(name, match)\<in>set ms. idx < name \<longrightarrow>
               (\<forall>issue. check_pair E self row match = Inr (Some issue) \<longrightarrow> issue \<in> set acc')"
        by blast+
      have a: "set acc \<subseteq> set acc1" by (auto simp: acc1_def split: option.splits)
      have b: "\<forall>issue. check_pair E self row match = Inr (Some issue) \<longrightarrow> issue \<in> set acc1"
        using Inr by (auto simp: acc1_def)
      from ih a b m show ?thesis by auto
    qed
  qed
qed

lemma iloc_member:
  "iloc gdf cs = Inr pm \<Longrightarrow> j \<in> set cs \<Longrightarrow> (j, gdf ! j) \<in> set pm"
  by (auto simp: iloc_def split: if_splits)

lemma rows_loop_issues:
  assumes "fst (rows_loop E self gdf rs (acc, ev)) = Inr acc'"
  shows "set acc \<subseteq> set acc'
         \<and> (\<forall>(idx, row)\<in>set rs. \<forall>cs j issue.
               sindex_intersection E (map fst gdf) (fst row) = Inr cs \<and> j \<in> set cs \<and> idx < j
               \<and> check_pair E self row (gdf ! j) = Inr (Some issue) \<longrightarrow> issue \<in> set acc')"
  using assms
proof (induction rs arbitrary: acc ev)
  case Nil
  then show ?case by simp
next
  case (Cons r rs)
  obtain idx row where r: "r = (idx, row)" by (cases r)
  show ?case
  proof (cases "ebind (sindex_intersection E (map fst gdf) (fst row)) (iloc gdf)")
    case (Inl e)
    with Cons.prems r show ?thesis by simp
  next
    case (Inr pm)
    then obtain cs0 where cs0: "sindex_intersection E (map fst gdf) (fst row) = Inr cs0"
      "iloc gdf cs0 = Inr pm"
      by (auto simp: ebind_def split: sum.splits)
    obtain res ev' where ml: "match_loop E self (idx, row) pm (acc, ev) = (res, ev')"
      by (cases "match_loop E self (idx, row) pm (acc, ev)")
    show ?thesis
    proof (cases res)
      case (Inl e)
      with Inr ml r Cons.prems show ?thesis by simp
    next
      case res: (Inr acc1)
      have "fst (rows_loop E self gdf rs (acc1, ev')) = Inr acc'"
        using Inr ml r res Cons.prems by simp
      from Cons.IH [OF this]
      have ih: "set acc1 \<subseteq> set acc'"
        "\<forall>(idx, row)\<in>set rs. \<forall>cs j issue.
               sindex_intersection E (map fst gdf) (fst row) = Inr cs \<and> j \<in> set cs \<and> idx < j
               \<and> check_pair E self row (gdf ! j) = Inr (Some issue) \<longrightarrow> issue \<in> set acc'"
        by blast+
      have "fst (match_loop E self (idx, row) pm (acc, ev)) = Inr acc1"
        using ml res by simp
      from match_loop_issues [OF this]
      have m1: "set acc \<subseteq> set acc1"
        "\<forall>(name, match)\<in>set pm. idx < name \<longrightarrow>
               (\<forall>issue. check_pair E self row match = Inr (Some issue) \<longrightarrow> issue \<in> set acc1)"
        by blast+
      have here: "\<forall>cs j issue.
               sindex_intersection E (map fst gdf) (fst row) = Inr cs \<and> j \<in> set cs \<and> idx < j
               \<and> check_pair E self row (gdf ! j) = Inr (Some issue) \<longrightarrow> issue \<in> set acc'"
      proof (intro allI impI)
        fix cs j issue
        assume h: "sindex_intersection E (map fst gdf) (fst row) = Inr cs \<and> j \<in> set cs \<and> idx < j
               \<and> check_pair E self row (gdf ! j) = Inr (Some issue)"
        with cs0 have "cs = cs0" by simp
        with h cs0 have "(j, gdf ! j) \<in> set pm" by (auto intro: iloc_member)
        with m1(2) h have "issue \<in> set acc1" by blast
        with ih(1) show "issue \<in> set acc'" by blast
      qed
      from m1(1) ih here r show ?thesis by auto
    qed
  qed
qed

lemma iterrows_member: "i < length gdf \<Longrightarrow> (i, gdf ! i) \<in> set (iterrows gdf)"
  by (simp add: iterrows_def in_set_enumerate_eq)

lemma check_pair_flags:
  assumes "\<not> is_valid_intersection self (snd row) (snd match)"
    and "intersects E (fst row) (fst match) = Inr True"
    and "intersection E (fst row) (fst match) = Inr ig"
    and "is_valid E ig = Inr True" and "area E ig = Inr a" and "a \<ge> area_threshold self"
  shows "check_pair E self row match = Inr (Some (fst row, fst match, ig, snd row, snd match))"
  using assms by (simp add: check_pair_def ebind_def try_except_def)

text \<open>
  C3 (as the code has it). With no condition the rule evaluator returns false for
  every pair of attribute mappings, so no intersection is exempted: when the check
  returns, every pair \<open>i < j\<close> that the index proposes and that intersects is in the
  result, provided its intersection geometry is computed, is valid and has an area of
  at least \<^verbatim>\<open>min_intersection_area\<close>.
\<close>

theorem empty_rules_flag_intersections:
  assumes "intersection_conditions self = []"
    and "invalid_intersections self = None"
    and "fst (check_intersections E self) = Inr res"
    and "i < length (geometries self)"
    and "sindex_intersection E (map fst (geometries self)) (fst (geometries self ! i)) = Inr cs"
    and "j \<in> set cs" and "i < j"
    and "intersects E (fst (geometries self ! i)) (fst (geometries self ! j)) = Inr True"
    and "intersection E (fst (geometries self ! i)) (fst (geometries self ! j)) = Inr ig"
    and "is_valid E ig = Inr True" and "area E ig = Inr a" and "a \<ge> area_threshold self"
  shows "\<not> is_valid_intersection self attr1 attr2
         \<and> (fst (geometries self ! i), fst (geometries self ! j), ig,
              snd (geometries self ! i), snd (geometries self ! j)) \<in> set res"
proof
  show "\<not> is_valid_intersection self attr1 attr2"
    using assms(1) by (rule no_conditions_not_valid)
next
  let ?gdf = "geometries self"
  have run: "fst (rows_loop E self ?gdf (iterrows ?gdf) ([], [])) = Inr res"
    using assms(2,3)
    by (auto simp: check_intersections_def intersections_run_def split: sum.splits)
  have cp: "check_pair E self (?gdf ! i) (?gdf ! j)
              = Inr (Some (fst (?gdf ! i), fst (?gdf ! j), ig, snd (?gdf ! i), snd (?gdf ! j)))"
    using assms(8-12) no_conditions_not_valid [OF assms(1)] by (intro check_pair_flags)
  from rows_loop_issues [OF run] iterrows_member [OF assms(4)] assms(5,6,7) cp
  show "(fst (?gdf ! i), fst (?gdf ! j), ig, snd (?gdf ! i), snd (?gdf ! j)) \<in> set res"
    by blast
qed

lemma facts_two_blocks:
  "intersection_conditions two_blocks = []"
  "geometries two_blocks = [(west_block, [(''id'', PInt 1)]), (east_block, [(''id'', PInt 2)])]"
  "area_threshold two_blocks = 0"
  by (simp_all add: two_blocks_def validator_def no_rules_def default_config_def
      intersection_conditions_def area_threshold_def)

lemma facts_raster_blocks:
  "sindex_intersection raster_engine [west_block, east_block] west_block = Inr [0, 1]"
  "intersects raster_engine west_block east_block = Inr True"
  "intersection raster_engine west_block east_block = Inr (Raster Polygon [(1, 0)])"
  "is_valid raster_engine (Raster Polygon [(1, 0)]) = Inr True"
  "area raster_engine (Raster Polygon [(1, 0)]) = Inr 1"
  by (simp_all add: raster_defs west_block_def east_block_def)

theorem empty_rules_flag_intersections_witness:
  "\<not> is_valid_intersection two_blocks [(''id'', PInt 1)] [(''id'', PInt 2)]
   \<and> (west_block, east_block, Raster Polygon [(1, 0)], [(''id'', PInt 1)], [(''id'', PInt 2)])
       \<in> set [(west_block, east_block, Raster Polygon [(1, 0)],
                [(''id'', PInt 1)], [(''id'', PInt 2)])]"
proof -
  let ?ig = "Raster Polygon [(1, 0)]"
  let ?res = "[(west_block, east_block, ?ig, [(''id'', PInt 1)], [(''id'', PInt 2)])]"
  have h1: "intersection_conditions two_blocks = []"
    and h2: "invalid_intersections two_blocks = None"
    and h3: "fst (check_intersections raster_engine two_blocks) = Inr ?res"
    and h4: "0 < length (geometries two_blocks)"
    and h5: "sindex_intersection raster_engine (map fst (geometries two_blocks))
               (fst (geometries two_blocks ! 0)) = Inr [0, 1]"
    and h6: "1 \<in> set [0, 1 :: nat]" and h7: "(0 :: nat) < 1"
    and h8: "intersects raster_engine (fst (geometries two_blocks ! 0))
               (fst (geometries two_blocks ! 1)) = Inr True"
    and h9: "intersection raster_engine (fst (geometries two_blocks ! 0))
               (fst (geometries two_blocks ! 1)) = Inr ?ig"
    and h10: "is_valid raster_engine ?ig = Inr True"
    and h11: "area raster_engine ?ig = Inr 1"
    and h12: "1 \<ge> area_threshold two_blocks"
    by (simp_all add: facts_two_blocks facts_raster_blocks fresh_examples intersections_two_blocks)
  from empty_rules_flag_intersections [OF h1 h2 h3 h4 h5 h6 h7 h8 h9 h10 h11 h12,
      of "[(''id'', PInt 1)]" "[(''id'', PInt 2)]"]
  show ?thesis by (simp add: facts_two_blocks)
qed

text \<open>
  C3 as stated fails: with no condition at all and \<^verbatim>\<open>min_intersection_area\<close> set to 5,
  two blocks that intersect in one cell are not flagged.
\<close>

theorem empty_rules_flag_counterexample:
  "intersection_conditions two_blocks_min_area = []
   \<and> evaluated_pairs raster_engine two_blocks_min_area = [(0, 1)]
   \<and> intersects raster_engine west_block east_block = Inr True
   \<and> fst (check_intersections raster_engine two_blocks_min_area) = Inr []"
  by (simp add: check_intersections_def evaluated_pairs_def fresh_examples run_two_blocks_min_area
      facts_raster_blocks)
     (simp add: two_blocks_min_area_def validator_def no_rules_def intersection_conditions_def)

text \<open>
  C5. A second call of the intersection check returns what the first returned; once the
  first has returned a list, the second returns it from the cache whatever the geometry
  library would now compute, and leaves the state as it is.
\<close>

theorem check_intersections_cached_result:
  "fst (check_intersections E (snd (check_intersections E self))) = fst (check_intersections E self)
   \<and> (fst (check_intersections E self) = Inr r \<longrightarrow>
        check_intersections E' (snd (check_intersections E self))
          = (Inr r, snd (check_intersections E self)))"
  by (auto simp: check_intersections_def intersections_run_def split: option.splits sum.splits)

theorem check_intersections_cached_result_witness:
  "fst (check_intersections raster_engine two_blocks)
     = Inr [(west_block, east_block, Raster Polygon [(1, 0)],
              [(''id'', PInt 1)], [(''id'', PInt 2)])]
   \<and> fst (check_intersections raster_engine (snd (check_intersections raster_engine two_blocks)))
     = Inr [(west_block, east_block, Raster Polygon [(1, 0)],
              [(''id'', PInt 1)], [(''id'', PInt 2)])]"
  using check_intersections_cached_result [of raster_engine two_blocks
      "[(west_block, east_block, Raster Polygon [(1, 0)], [(''id'', PInt 1)], [(''id'', PInt 2)])]"
      raster_engine]
  by (simp add: intersections_two_blocks)

section \<open>The other checks: proofs\<close>

text \<open>
  C6. The overlap check does not read \<^verbatim>\<open>allow_overlap_if\<close>: changing that list, in the
  rules and in the merged configuration, changes nothing in its result.
\<close>

theorem check_overlaps_ignores_allow_overlap_if:
  "check_overlaps E
     (self\<lparr>rules := (rules self)\<lparr>allow_overlap_if := conds\<rparr>,
           config := (config self)\<lparr>cfg_allow_overlap_if := conds'\<rparr>\<rparr>) tolerance
   = check_overlaps E self tolerance"
  by (simp add: check_overlaps_def)

text \<open>
  C8. The gap check never raises, and it returns \<^verbatim>\<open>None\<close> when the collection has no
  Polygon, when the gap region (buffered union minus union) is empty, and when the
  union, the buffer or the difference fails.
\<close>

theorem check_gaps_no_gaps:
  "(\<exists>r. check_gaps E self tolerance = Inr r)
   \<and> (polygons_of E self = []
      \<or> (\<exists>g. gap_region E (polygons_of E self) tolerance = Inr g \<and> is_empty E g = Inr True)
      \<or> (\<exists>e. gap_region E (polygons_of E self) tolerance = Inl e)
      \<longrightarrow> check_gaps E self tolerance = Inr None)"
  by (auto simp: check_gaps_def Let_def try_except_def ebind_def split: sum.splits)

lemma gaps_examples:
  "polygons_of raster_engine one_line = []"
  "gap_region raster_engine (polygons_of raster_engine one_block) 0
     = Inr (Raster GeometryCollection [])"
  "is_empty raster_engine (Raster GeometryCollection []) = Inr True"
  "gap_region raster_engine (polygons_of raster_engine broken_polygon) 0
     = Inl (GeometryError ''TopologyException'')"
  by (simp_all add: one_line_def one_block_def broken_polygon_def example_defs polygons_of_def
      gap_region_def raster_defs)

theorem check_gaps_no_gaps_witness:
  "check_gaps raster_engine one_line 0 = Inr None
   \<and> check_gaps raster_engine one_block 0 = Inr None
   \<and> check_gaps raster_engine broken_polygon 0 = Inr None"
  using check_gaps_no_gaps [of raster_engine one_line 0]
    check_gaps_no_gaps [of raster_engine one_block 0]
    check_gaps_no_gaps [of raster_engine broken_polygon 0]
  by (simp add: gaps_examples)

lemma polygons_of_filter:
  "polygons_of E (self\<lparr>geometries := [f \<leftarrow> geometries self. geom_type E (fst f) = Polygon]\<rparr>)
     = polygons_of E self"
  by (simp add: polygons_of_def filter_map comp_def)

lemma polygons_of_Nil_iff:
  "polygons_of E self = [] \<longleftrightarrow> [f \<leftarrow> geometries self. geom_type E (fst f) = Polygon] = []"
  by (simp add: polygons_of_def filter_map comp_def)

text \<open>
  C10. The gap check depends on the collection only through its features of type
  Polygon: dropping every other feature does not change its result, and a collection
  of MultiPolygon features alone yields \<^verbatim>\<open>None\<close>, whatever the geometry library computes.
\<close>

theorem check_gaps_polygons_only:
  "check_gaps E self tolerance
     = check_gaps E
         (self\<lparr>geometries := [f \<leftarrow> geometries self. geom_type E (fst f) = Polygon]\<rparr>) tolerance
   \<and> ((\<forall>f\<in>set (geometries self). geom_type E (fst f) = MultiPolygon)
        \<longrightarrow> check_gaps E self tolerance = Inr None)"
proof
  show "check_gaps E self tolerance
     = check_gaps E
         (self\<lparr>geometries := [f \<leftarrow> geometries self. geom_type E (fst f) = Polygon]\<rparr>) tolerance"
    using polygons_of_Nil_iff [of E self]
    by (auto simp: check_gaps_def [of E self] check_gaps_def [of E "self\<lparr>geometries := _\<rparr>"]
        Let_def polygons_of_filter)
next
  show "(\<forall>f\<in>set (geometries self). geom_type E (fst f) = MultiPolygon)
        \<longrightarrow> check_gaps E self tolerance = Inr None"
  proof
    assume a: "\<forall>f\<in>set (geometries self). geom_type E (fst f) = MultiPolygon"
    then have "polygons_of E self = []"
      by (auto simp: polygons_of_def filter_empty_conv)
    then show "check_gaps E self tolerance = Inr None"
      by (simp add: check_gaps_def Let_def)
  qed
qed

lemma mosaic_types:
  "\<forall>f\<in>set (geometries multipolygon_mosaic). geom_type raster_engine (fst f) = MultiPolygon"
  by (simp add: multipolygon_mosaic_def validator_def raster_engine_def)

theorem check_gaps_polygons_only_witness:
  "geom_type raster_engine (Raster MultiPolygon [(0, 0), (2, 0)]) = MultiPolygon
   \<and> geom_type raster_engine (Raster MultiPolygon [(4, 0)]) = MultiPolygon
   \<and> check_gaps raster_engine multipolygon_mosaic 0 = Inr None"
proof -
  have "check_gaps raster_engine multipolygon_mosaic 0 = Inr None"
    using check_gaps_polygons_only [of raster_engine multipolygon_mosaic 0] mosaic_types
    by blast
  then show ?thesis by (simp add: raster_engine_def)
qed

text \<open>
  The containment check on the two nested squares: the containing square listed first
  is reported.
\<close>

lemma containment_outer_listed_first:
  "check_containment raster_engine outer_listed_first
     = Inr [(outer_square, inner_square, [(''id'', PInt 2)], [(''id'', PInt 1)])]"
  by (simp add: check_containment_def outer_listed_first_def example_defs iterrows_def
      enumerate_eq_zip raster_defs)

text \<open>
  C1. The claim asks for the containment of an earlier feature in a later one to be
  reported. The code tests row \<open>i\<close> against the later rows only, in that direction
  only: with the inner square listed first, the outer square contains it and nothing
  is reported.
\<close>

theorem check_containment_misses_later_container:
  "contains raster_engine outer_square inner_square = Inr True
   \<and> check_containment raster_engine inner_listed_first = Inr []"
  by (simp add: check_containment_def inner_listed_first_def example_defs iterrows_def
      enumerate_eq_zip raster_defs)

text \<open>
  The dangle loop reads the global name \<^verbatim>\<open>Point\<close>, which the module does not bind: on
  the first LineString it raises, whatever the geometry library does.
\<close>

lemma dangles_loop_LineString:
  "dangles_loop E network gs acc
     = (if \<exists>f\<in>set gs. geom_type E (fst f) = LineString
        then Inl (NameError ''Point'') else Inr acc)"
proof (induction gs arbitrary: acc)
  case Nil
  show ?case by simp
next
  case (Cons f gs)
  obtain geom attrs where f: "f = (geom, attrs)" by (cases f)
  show ?case
  proof (cases "geom_type E geom = LineString")
    case True
    have "line_dangles E network geom = Inl (NameError ''Point'')"
      by (simp add: line_dangles_def load_global_def module_globals_def ebind_def)
    with True f show ?thesis by simp
  next
    case False
    with f Cons.IH [of acc] show ?thesis by simp
  qed
qed

lemma check_dangles_never_flags:
  "check_dangles E self = Inr dangles \<Longrightarrow> dangles = []"
  by (auto simp: check_dangles_def ebind_def dangles_loop_LineString
      split: sum.splits if_splits)

text \<open>
  C9. The claim asks for an isolated line to be flagged once. On a collection that
  holds one isolated LineString the dangle check raises \<^verbatim>\<open>NameError\<close> and flags nothing.
\<close>

theorem check_dangles_isolated_line:
  "geom_type raster_engine isolated_line = LineString
   \<and> check_dangles raster_engine one_line = Inl (NameError ''Point'')"
  by (simp add: check_dangles_def one_line_def example_defs line_dangles_def load_global_def
      module_globals_def raster_defs)

section \<open>The orchestrator: proofs\<close>

lemma enabled_cache:
  "enabled (self\<lparr>invalid_intersections := c\<rparr>) name = enabled self name"
  by (simp add: enabled_def)

lemma checks_cache:
  "check_self_intersections E (self\<lparr>invalid_intersections := c\<rparr>)
     = check_self_intersections E self"
  "check_gaps E (self\<lparr>invalid_intersections := c\<rparr>) tol = check_gaps E self tol"
  "check_dangles E (self\<lparr>invalid_intersections := c\<rparr>) = check_dangles E self"
  "check_overlaps E (self\<lparr>invalid_intersections := c\<rparr>) tol = check_overlaps E self tol"
  "check_containment E (self\<lparr>invalid_intersections := c\<rparr>) = check_containment E self"
  by (simp_all add: check_self_intersections_def check_gaps_def polygons_of_def
      check_dangles_def check_overlaps_def check_containment_def)

lemma check_intersections_state:
  "snd (check_intersections E self) = self
   \<or> (\<exists>c. snd (check_intersections E self) = self\<lparr>invalid_intersections := c\<rparr>)"
  by (auto simp: check_intersections_def split: option.splits sum.splits)

lemma check_gaps_Inr: "\<exists>r. check_gaps E self tolerance = Inr r"
  by (auto simp: check_gaps_def Let_def try_except_def ebind_def split: sum.splits)

text \<open>
  C2 (as the code has it). The orchestrator has no isolation of its own: it raises
  exactly when an enabled check raises, and then returns no mapping at all. The gap
  check catches its own failures and is not among the checks that can abort the run.
\<close>

theorem validate_topology_propagates:
  "isl (fst (validate_topology E self)) \<longleftrightarrow>
     (enabled self ''intersections'' \<and> isl (fst (check_intersections E self)))
     \<or> (enabled self ''self_intersections'' \<and> isl (check_self_intersections E self))
     \<or> (enabled self ''dangles'' \<and> isl (check_dangles E self))
     \<or> (enabled self ''overlaps'' \<and> isl (check_overlaps E self 0))
     \<or> (enabled self ''containment'' \<and> isl (check_containment E self))"
proof -
  obtain r s where ci: "check_intersections E self = (r, s)"
    by (cases "check_intersections E self")
  from check_intersections_state [of E self] ci
  have s: "s = self \<or> (\<exists>c. s = self\<lparr>invalid_intersections := c\<rparr>)" by simp
  obtain g where g: "check_gaps E self 0 = Inr g" using check_gaps_Inr by blast
  from s show ?thesis
  proof
    assume "s = self"
    with ci g show ?thesis
      by (cases r; cases "check_self_intersections E self"; cases "check_dangles E self";
          cases "check_overlaps E self 0"; cases "check_containment E self"; cases g)
         (simp_all add: validate_topology_def ebind_def)
  next
    assume "\<exists>c. s = self\<lparr>invalid_intersections := c\<rparr>"
    then obtain c where "s = self\<lparr>invalid_intersections := c\<rparr>" ..
    with ci g show ?thesis
      by (cases r; cases "check_self_intersections E self"; cases "check_dangles E self";
          cases "check_overlaps E self 0"; cases "check_containment E self"; cases g)
         (simp_all add: validate_topology_def ebind_def enabled_cache checks_cache)
  qed
qed

lemma one_line_dangles:
  "enabled one_line ''dangles''" "isl (check_dangles raster_engine one_line)"
  by (simp_all add: one_line_def example_defs enabled_def check_dangles_def line_dangles_def
      load_global_def module_globals_def raster_defs)

theorem validate_topology_propagates_witness:
  "enabled one_line ''dangles'' \<and> isl (check_dangles raster_engine one_line)
   \<and> isl (fst (validate_topology raster_engine one_line))"
  using validate_topology_propagates [of raster_engine one_line] one_line_dangles
  by blast

text \<open>
  C2 as stated fails: on two blocks and a line the intersection check has a result,
  the dangle check raises, and the orchestrator returns no mapping: it raises too.
\<close>

theorem validate_topology_isolation_counterexample:
  "fst (check_intersections raster_engine blocks_and_line)
     = Inr [(west_block, east_block, Raster Polygon [(1, 0)],
              [(''id'', PInt 1)], [(''id'', PInt 2)])]
   \<and> fst (validate_topology raster_engine blocks_and_line) = Inl (NameError ''Point'')"
  by (simp add: validate_topology_def intersections_blocks_and_line enabled_blocks_and_line
      enabled_cache checks_cache checks_blocks_and_line ebind_def)

end
